theory Spec2Isabelle
  imports Main
begin

section \<open>The VertexAI error module (packages/vertexai/src/errors.ts)\<close>

text \<open>
  The module declares eight error codes, one message template for each, the shape of the
  data each code takes, the class \<open>VertexAIError\<close> and the function
  \<open>createVertexError\<close>. The classes \<open>ErrorFactory\<close> and \<open>FirebaseError\<close> come from
  the package @firebase/util and the type \<open>GenerateContentResponse\<close> from ./types; none
  of the three is part of the sources.
\<close>

subsection \<open>JavaScript values and exceptions\<close>

text \<open>
  The values that data records, error details and responses are made of. An object is the
  list of its own properties in insertion order; a property is looked up with \<open>map_of\<close>.
  \<open>Num\<close> holds the integer-valued numbers (an HTTP status is one); fractions, NaN and
  the infinities are outside the model.
\<close>

datatype jsval =
    Undefined
  | Null
  | Bool bool
  | Num int
  | Str string
  | Arr "jsval list"
  | Obj "(string \<times> jsval) list"

datatype js_error =
    ReferenceError string
  | TypeError string

subsection \<open>Error codes and message templates (lines 21 to 49)\<close>

datatype VertexAIErrorCode =
    FETCH_ERROR
  | INVALID_CONTENT
  | NO_API_KEY
  | NO_MODEL
  | NO_PROJECT_ID
  | PARSE_FAILED
  | BAD_RESPONSE
  | RESPONSE_ERROR

text \<open>The string each member of the const enum stands for.\<close>

fun code_string :: "VertexAIErrorCode \<Rightarrow> string" where
  "code_string FETCH_ERROR = ''fetch-error''"
| "code_string INVALID_CONTENT = ''invalid-content''"
| "code_string NO_API_KEY = ''no-api-key''"
| "code_string NO_MODEL = ''no-model''"
| "code_string NO_PROJECT_ID = ''no-project-id''"
| "code_string PARSE_FAILED = ''parse-failed''"
| "code_string BAD_RESPONSE = ''bad-response''"
| "code_string RESPONSE_ERROR = ''response-error''"

text \<open>
  The template table. The entries that the source builds with \<open>+\<close> are built with \<open>@\<close>
  from the same pieces.
\<close>

fun VertexAIErrorMessages :: "VertexAIErrorCode \<Rightarrow> string" where
  "VertexAIErrorMessages FETCH_ERROR = ''Error fetching from {$url}: {$message}''"
| "VertexAIErrorMessages INVALID_CONTENT = ''Content formatting error: {$message}''"
| "VertexAIErrorMessages NO_API_KEY =
     ''The \"apiKey\" field is empty in the local Firebase config. Firebase VertexAI requires this field to'' @
     ''contain a valid API key.''"
| "VertexAIErrorMessages NO_PROJECT_ID =
     ''The \"projectId\" field is empty in the local Firebase config. Firebase VertexAI requires this field to'' @
     ''contain a valid project ID.''"
| "VertexAIErrorMessages NO_MODEL =
     ''Must provide a model name. '' @
     ''Example: getGenerativeModel({ model: 'my-model-name' })''"
| "VertexAIErrorMessages PARSE_FAILED = ''Parsing failed: {$message}''"
| "VertexAIErrorMessages BAD_RESPONSE =
     ''Bad response from {$url}: [{$status} {$statusText}] {$message}''"
| "VertexAIErrorMessages RESPONSE_ERROR =
     ''Response error: {$message}. Response body stored in '' @
     ''error.customData.response''"

subsection \<open>Declared shapes: ErrorDetails and VertexAIErrorParams (lines 55 to 78)\<close>

text \<open>
  An interface is the list of its declared properties (name, type, optional) and its index
  signature, if it has one. A value conforms when it is an object, every declared property
  is present with its type (or may be missing or undefined when optional), and every other
  property is admitted by the index signature; without an index signature no other
  property is admitted, which is the check TypeScript makes on an object literal.
\<close>

datatype tstype =
    TString
  | TNumber
  | TUnknown
  | TRecordUnknown
  | TErrorDetailsArray
  | TGenerateContentResponse

record interface =
  properties :: "(string \<times> tstype \<times> bool) list"
  index_signature :: "tstype option"

definition ErrorDetails :: interface where
  "ErrorDetails =
     \<lparr>properties =
        [(''@type'', TString, True),
         (''reason'', TString, True),
         (''domain'', TString, True),
         (''metadata'', TRecordUnknown, True)],
      index_signature = Some TUnknown\<rparr>"

text \<open>\<open>None\<close>: the code is not a key of \<open>VertexAIErrorParams\<close> and takes no data.\<close>

fun VertexAIErrorParams :: "VertexAIErrorCode \<Rightarrow> interface option" where
  "VertexAIErrorParams FETCH_ERROR =
     Some \<lparr>properties = [(''url'', TString, False), (''message'', TString, False)],
           index_signature = None\<rparr>"
| "VertexAIErrorParams INVALID_CONTENT =
     Some \<lparr>properties = [(''message'', TString, False)], index_signature = None\<rparr>"
| "VertexAIErrorParams PARSE_FAILED =
     Some \<lparr>properties = [(''message'', TString, False)], index_signature = None\<rparr>"
| "VertexAIErrorParams BAD_RESPONSE =
     Some \<lparr>properties =
             [(''url'', TString, False),
              (''status'', TNumber, False),
              (''statusText'', TString, False),
              (''message'', TString, False),
              (''errorDetails'', TErrorDetailsArray, True)],
           index_signature = None\<rparr>"
| "VertexAIErrorParams RESPONSE_ERROR =
     Some \<lparr>properties =
             [(''message'', TString, False),
              (''response'', TGenerateContentResponse, False)],
           index_signature = None\<rparr>"
| "VertexAIErrorParams NO_API_KEY = None"
| "VertexAIErrorParams NO_MODEL = None"
| "VertexAIErrorParams NO_PROJECT_ID = None"

fun has_basic_type :: "tstype \<Rightarrow> jsval \<Rightarrow> bool" where
  "has_basic_type TString (Str s) = True"
| "has_basic_type TNumber (Num n) = True"
| "has_basic_type TUnknown v = True"
| "has_basic_type TRecordUnknown (Obj kvs) = True"
| "has_basic_type t v = False"

definition property_ok ::
  "(tstype \<Rightarrow> jsval \<Rightarrow> bool) \<Rightarrow> (string \<times> jsval) list \<Rightarrow> string \<times> tstype \<times> bool \<Rightarrow> bool" where
  "property_ok typed kvs p =
     (case p of (name, t, optional) \<Rightarrow>
        (case map_of kvs name of
           None \<Rightarrow> optional
         | Some x \<Rightarrow> typed t x \<or> (optional \<and> x = Undefined)))"

definition extra_ok ::
  "(tstype \<Rightarrow> jsval \<Rightarrow> bool) \<Rightarrow> interface \<Rightarrow> string \<times> jsval \<Rightarrow> bool" where
  "extra_ok typed I kv =
     (case kv of (k, x) \<Rightarrow>
        (if k \<in> set (map fst (properties I)) then True
         else (case index_signature I of None \<Rightarrow> False | Some t \<Rightarrow> typed t x)))"

definition conforms :: "(tstype \<Rightarrow> jsval \<Rightarrow> bool) \<Rightarrow> interface \<Rightarrow> jsval \<Rightarrow> bool" where
  "conforms typed I v =
     (case v of
        Obj kvs \<Rightarrow>
          list_all (property_ok typed kvs) (properties I) \<and> list_all (extra_ok typed I) kvs
      | _ \<Rightarrow> False)"

definition is_ErrorDetails :: "jsval \<Rightarrow> bool" where
  "is_ErrorDetails v = conforms has_basic_type ErrorDetails v"

text \<open>
  Modelled from the spec: the type \<open>GenerateContentResponse\<close> is declared in ./types, which
  is missing; the spec calls the value "the full decoded API response object", so any
  object has the type.
\<close>

fun has_type :: "tstype \<Rightarrow> jsval \<Rightarrow> bool" where
  "has_type TErrorDetailsArray (Arr xs) = list_all is_ErrorDetails xs"
| "has_type TErrorDetailsArray v = False"
| "has_type TGenerateContentResponse (Obj kvs) = True"
| "has_type TGenerateContentResponse v = False"
| "has_type t v = has_basic_type t v"

text \<open>
  The rest parameter \<open>...data\<close> has the type \<open>[VertexAIErrorParams[K]]\<close> when the code is a
  key of \<open>VertexAIErrorParams\<close> and \<open>[]\<close> otherwise.
\<close>

definition well_typed_data :: "VertexAIErrorCode \<Rightarrow> jsval list \<Rightarrow> bool" where
  "well_typed_data code' data =
     (case VertexAIErrorParams code' of
        None \<Rightarrow> data = []
      | Some I \<Rightarrow> (case data of [p] \<Rightarrow> conforms has_type I p | _ \<Rightarrow> False))"

subsection \<open>String forms\<close>

fun digits :: "nat \<Rightarrow> string" where
  "digits n =
     (if n < 10 then [''0123456789'' ! n]
      else digits (n div 10) @ [''0123456789'' ! (n mod 10)])"

fun join :: "string \<Rightarrow> string list \<Rightarrow> string" where
  "join sep [] = []"
| "join sep [x] = x"
| "join sep (x # y # ys) = x @ sep @ join sep (y # ys)"

text \<open>
  What \<open>String(v)\<close> gives for a value of the model (for a number, below 10 to the 21 in
  magnitude, where JavaScript prints every digit).
\<close>

fun String_js :: "jsval \<Rightarrow> string" where
  "String_js Undefined = ''undefined''"
| "String_js Null = ''null''"
| "String_js (Bool b) = (if b then ''true'' else ''false'')"
| "String_js (Num n) = (if n < 0 then ''-'' @ digits (nat (- n)) else digits (nat n))"
| "String_js (Str s) = s"
| "String_js (Arr xs) =
     join '','' (map (\<lambda>v. if v = Undefined \<or> v = Null then [] else String_js v) xs)"
| "String_js (Obj kvs) = ''[object Object]''"

subsection \<open>The error factory (lines 80 to 84)\<close>

text \<open>
  The factory object holds the three arguments of the constructor call of line 80, in
  their order: two names of the service and the template table. The class itself is
  missing, so the field names only describe the arguments.
\<close>

record ErrorFactory =
  service :: string
  serviceName :: string
  errors :: "VertexAIErrorCode \<Rightarrow> string"

definition ERROR_FACTORY :: ErrorFactory where
  "ERROR_FACTORY =
     \<lparr>service = ''vertexAI'', serviceName = ''VertexAI'', errors = VertexAIErrorMessages\<rparr>"

text \<open>
  Modelled from the spec: the method \<open>ErrorFactory.create\<close> of @firebase/util is missing.
  The spec's algorithm: look the template of the kind up; replace each \<open>{$fieldName}\<close> by
  the string form of \<open>params[fieldName]\<close>; assemble \<open>customData\<close> from the params fields
  url, status, statusText, errorDetails and response, the message being consumed by the
  substitution and not echoed. What stands for a placeholder whose field is missing or
  undefined is left open by the spec, so it is the parameter \<open>absent\<close>, a function of the
  field name. The scan keeps the name read so far (\<open>None\<close> outside a placeholder); a
  placeholder with an empty name or without its closing brace stays as it is.
\<close>

definition field_text :: "(string \<Rightarrow> string) \<Rightarrow> (string \<times> jsval) list \<Rightarrow> string \<Rightarrow> string" where
  "field_text absent params name =
     (case map_of params name of
        None \<Rightarrow> absent name
      | Some v \<Rightarrow> (if v = Undefined then absent name else String_js v))"

fun substitute ::
  "(string \<Rightarrow> string) \<Rightarrow> (string \<times> jsval) list \<Rightarrow> string option \<Rightarrow> string \<Rightarrow> string" where
  "substitute absent params None [] = []"
| "substitute absent params None [c] = [c]"
| "substitute absent params None (c # d # cs) =
     (if c = CHR ''{'' \<and> d = CHR ''$'' then substitute absent params (Some []) cs
      else c # substitute absent params None (d # cs))"
| "substitute absent params (Some name) [] = ''{$'' @ name"
| "substitute absent params (Some name) (c # cs) =
     (if c = CHR ''}''
      then (if name = [] then ''{$}'' else field_text absent params name) @
           substitute absent params None cs
      else substitute absent params (Some (name @ [c])) cs)"

definition diagnostic_fields :: "string list" where
  "diagnostic_fields = [''url'', ''status'', ''statusText'', ''errorDetails'', ''response'']"

definition ErrorFactory_create ::
  "(string \<Rightarrow> string) \<Rightarrow> ErrorFactory \<Rightarrow> VertexAIErrorCode \<Rightarrow> jsval list \<Rightarrow> js_error + jsval" where
  "ErrorFactory_create absent factory code' data =
     (let params = (case data of Obj kvs # rest \<Rightarrow> kvs | _ \<Rightarrow> []);
          template = errors factory code'
      in Inr (Obj [(''code'', Str (code_string code')),
                   (''message'', Str (substitute absent params None template)),
                   (''customData'', Obj (filter (\<lambda>kv. fst kv \<in> set diagnostic_fields) params))]))"

text \<open>The three policies for a missing field: the two the spec names and the marker.\<close>

definition keep_token :: "string \<Rightarrow> string" where
  "keep_token name = ''{$'' @ name @ ''}''"

definition empty_text :: "string \<Rightarrow> string" where
  "empty_text name = []"

definition marker :: "string \<Rightarrow> string" where
  "marker name = ''<'' @ name @ ''?>''"

subsection \<open>The class VertexAIError (lines 90 to 124)\<close>


record VertexAIError =
  code :: jsval
  message :: jsval
  customData :: jsval

text \<open>
  Modelled from the spec: the constructor of \<open>FirebaseError\<close> (@firebase/util) is missing.
  The spec's error value owns a kind tag, a rendered message and a \<open>customData\<close> bag, which
  are the three arguments of the \<open>super\<close> call.
\<close>

definition FirebaseError_new :: "jsval \<Rightarrow> jsval \<Rightarrow> jsval \<Rightarrow> VertexAIError" where
  "FirebaseError_new c m cd = \<lparr>code = c, message = m, customData = cd\<rparr>"

text \<open>
  Reading one of the properties \<open>code\<close>, \<open>message\<close>, \<open>customData\<close>: a TypeError on
  undefined and null, the property of an object, and undefined on the other values, which
  have no property of these names.
\<close>

fun get_prop :: "jsval \<Rightarrow> string \<Rightarrow> js_error + jsval" where
  "get_prop Undefined p = Inl (TypeError p)"
| "get_prop Null p = Inl (TypeError p)"
| "get_prop (Obj kvs) p = Inr (case map_of kvs p of None \<Rightarrow> Undefined | Some v \<Rightarrow> v)"
| "get_prop v p = Inr Undefined"

text \<open>The own enumerable properties that \<open>{ ...v }\<close> copies.\<close>

fun spread :: "jsval \<Rightarrow> (string \<times> jsval) list" where
  "spread (Obj kvs) = kvs"
| "spread (Arr xs) = zip (map digits [0..<length xs]) xs"
| "spread (Str s) = zip (map digits [0..<length s]) (map (\<lambda>c. Str [c]) s)"
| "spread v = []"

fun truthy :: "jsval \<Rightarrow> bool" where
  "truthy Undefined = False"
| "truthy Null = False"
| "truthy (Bool b) = b"
| "truthy (Num n) = (n \<noteq> 0)"
| "truthy (Str s) = (s \<noteq> [])"
| "truthy v = True"

definition js_or :: "jsval \<Rightarrow> jsval \<Rightarrow> jsval" where
  "js_or a b = (if truthy a then a else b)"

text \<open>
  The constructor takes \<open>code\<close> and \<open>...data\<close> and reads the identifier \<open>firebaseError\<close>.
  That name is neither a parameter of the constructor nor declared at module level (the
  module declares \<open>VertexAIErrorMessages\<close>, \<open>ERROR_FACTORY\<close>, \<open>VertexAIError\<close> and
  \<open>createVertexError\<close> and imports \<open>ErrorFactory\<close> and \<open>FirebaseError\<close>); its one
  declaration, on line 137, is local to the body of \<open>createVertexError\<close> and not visible
  in the class. So the identifier resolves in the global environment \<open>globals\<close> of the
  host, and reading it raises a ReferenceError when the host defines no such global.
  The arguments of \<open>super\<close> are evaluated first; after \<open>super\<close> returns, the field
  initialiser sets \<open>customData\<close> to the empty object, and line 122 assigns the copy.
\<close>

definition VertexAIError_new ::
  "(string \<rightharpoonup> jsval) \<Rightarrow> VertexAIErrorCode \<Rightarrow> jsval list \<Rightarrow> js_error + VertexAIError" where
  "VertexAIError_new globals code' data =
     (case globals ''firebaseError'' of
        None \<Rightarrow> Inl (ReferenceError ''firebaseError'')
      | Some firebaseError \<Rightarrow>
          (case get_prop firebaseError ''code'' of
             Inl e \<Rightarrow> Inl e
           | Inr c \<Rightarrow>
          (case get_prop firebaseError ''message'' of
             Inl e \<Rightarrow> Inl e
           | Inr m \<Rightarrow>
          (case get_prop firebaseError ''customData'' of
             Inl e \<Rightarrow> Inl e
           | Inr cd \<Rightarrow>
               (let this = FirebaseError_new c m cd;
                    this = this\<lparr>customData := Obj []\<rparr>
                in (case get_prop firebaseError ''customData'' of
                      Inl e \<Rightarrow> Inl e
                    | Inr cd' \<Rightarrow>
                        Inr (this\<lparr>customData := js_or (Obj (spread cd')) (Obj [])\<rparr>)))))))"

subsection \<open>createVertexError (lines 133 to 139)\<close>

text \<open>
  Line 137 calls \<open>ERROR_FACTORY.create(code, ...data)\<close> and binds the result to the local
  \<open>firebaseError\<close>; line 138 returns \<open>new VertexAIError(code, ...data)\<close>, which does not
  receive that local. The missing method is the parameter \<open>create\<close>; an exception it
  raises leaves the function.
\<close>

definition createVertexError ::
  "(ErrorFactory \<Rightarrow> VertexAIErrorCode \<Rightarrow> jsval list \<Rightarrow> js_error + jsval) \<Rightarrow>
   (string \<rightharpoonup> jsval) \<Rightarrow> VertexAIErrorCode \<Rightarrow> jsval list \<Rightarrow> js_error + VertexAIError" where
  "createVertexError create globals code' data =
     (case create ERROR_FACTORY code' data of
        Inl e \<Rightarrow> Inl e
      | Inr firebaseError \<Rightarrow> VertexAIError_new globals code' data)"

section \<open>What the construction does\<close>

subsection \<open>The constructor and the unbound identifier\<close>

lemma firebaseError_unbound:
  "globals ''firebaseError'' = None \<Longrightarrow>
   VertexAIError_new globals code' data = Inl (ReferenceError ''firebaseError'')"
  by (simp add: VertexAIError_new_def)

text \<open>
  The constructor never reads its own arguments: in any host, two calls with different
  codes and data have the same outcome.
\<close>

lemma VertexAIError_new_ignores_arguments:
  "VertexAIError_new globals code1 data1 = VertexAIError_new globals code2 data2"
  by (simp add: VertexAIError_new_def)

text \<open>
  Whatever value the factory call of line 137 returns, the construction of line 138 raises
  the ReferenceError.
\<close>

lemma createVertexError_raises:
  assumes "create ERROR_FACTORY code' data = Inr fe"
    and "globals ''firebaseError'' = None"
  shows "createVertexError create globals code' data = Inl (ReferenceError ''firebaseError'')"
  using assms by (simp add: createVertexError_def firebaseError_unbound)

lemma ErrorFactory_create_returns:
  "\<exists>fe. ErrorFactory_create absent factory code' data = Inr fe"
  by (simp add: ErrorFactory_create_def Let_def)

lemma modelled_factory_raises:
  assumes "globals ''firebaseError'' = None"
  shows "createVertexError (ErrorFactory_create absent) globals code' data =
         Inl (ReferenceError ''firebaseError'')"
proof -
  obtain fe where "ErrorFactory_create absent ERROR_FACTORY code' data = Inr fe"
    using ErrorFactory_create_returns by blast
  then show ?thesis using assms by (rule createVertexError_raises)
qed

text \<open>
  When the construction does return, the host defines the global, and the \<open>customData\<close>
  of the error is the copy of that global's \<open>customData\<close>: nothing of the data record
  reaches it.
\<close>

lemma constructed_customData_from_global:
  assumes "createVertexError create globals code' data = Inr e"
  shows "\<exists>fe cd. globals ''firebaseError'' = Some fe \<and>
                 get_prop fe ''customData'' = Inr cd \<and>
                 customData e = Obj (spread cd)"
  using assms
  by (auto simp add: createVertexError_def VertexAIError_new_def js_or_def Let_def
      split: sum.splits option.splits)

subsection \<open>The value line 137 binds, under the spec's algorithm\<close>

text \<open>
  With the factory modelled from the spec, the local \<open>firebaseError\<close> of line 137 holds the
  messages of the spec's scenarios A and C; line 138 does not pass it on.
\<close>

lemma line_137_scenario_A:
  "ErrorFactory_create absent ERROR_FACTORY FETCH_ERROR
     [Obj [(''url'', Str ''https://api.example.com/v1''), (''message'', Str ''timeout'')]] =
   Inr (Obj [(''code'', Str ''fetch-error''),
             (''message'', Str ''Error fetching from https://api.example.com/v1: timeout''),
             (''customData'', Obj [(''url'', Str ''https://api.example.com/v1'')])])"
  by (simp add: ErrorFactory_create_def ERROR_FACTORY_def field_text_def diagnostic_fields_def)

lemma line_137_scenario_C:
  "ErrorFactory_create absent ERROR_FACTORY BAD_RESPONSE
     [Obj [(''url'', Str ''u''), (''status'', Num 404), (''statusText'', Str ''Not Found''),
           (''message'', Str ''missing'')]] =
   Inr (Obj [(''code'', Str ''bad-response''),
             (''message'', Str ''Bad response from u: [404 Not Found] missing''),
             (''customData'',
              Obj [(''url'', Str ''u''), (''status'', Num 404),
                   (''statusText'', Str ''Not Found'')])])"
  by (simp add: ErrorFactory_create_def ERROR_FACTORY_def field_text_def diagnostic_fields_def)

lemma line_137_missing_field:
  "ErrorFactory_create marker ERROR_FACTORY PARSE_FAILED [Obj []] =
   Inr (Obj [(''code'', Str ''parse-failed''),
             (''message'', Str ''Parsing failed: <message?>''),
             (''customData'', Obj [])])"
  by (simp add: ErrorFactory_create_def ERROR_FACTORY_def field_text_def marker_def)

section \<open>The claims\<close>

text \<open>
  Claim C1. For every error kind, createError with a complete, well-formed params record
  returns an error whose message has no unresolved placeholder and whose kind is the input
  kind. The code does not return one: for every code and every data of the declared shape,
  in a host without a global named \<open>firebaseError\<close>, \<open>createVertexError\<close> raises the
  ReferenceError of the constructor.
\<close>

theorem createVertexError_well_typed_raises:
  assumes "well_typed_data code' data"
    and "globals ''firebaseError'' = None"
  shows "createVertexError (ErrorFactory_create absent) globals code' data =
         Inl (ReferenceError ''firebaseError'')"
  using assms(2) by (rule modelled_factory_raises)

theorem createVertexError_well_typed_raises_witness:
  "well_typed_data INVALID_CONTENT [Obj [(''message'', Str ''bad part'')]] \<and>
   Map.empty ''firebaseError'' = (None :: jsval option) \<and>
   createVertexError (ErrorFactory_create keep_token) Map.empty INVALID_CONTENT
     [Obj [(''message'', Str ''bad part'')]] =
   Inl (ReferenceError ''firebaseError'')"
  using createVertexError_well_typed_raises
    [of INVALID_CONTENT "[Obj [(''message'', Str ''bad part'')]]" Map.empty keep_token]
  by (simp add: well_typed_data_def conforms_def property_ok_def extra_ok_def)

text \<open>
  Claim C2. createError is total and pure: it never throws during construction and always
  returns a fully-formed error. The code never returns an error value: whatever the
  factory method does, for every code and data, in a host without a global named
  \<open>firebaseError\<close>, the outcome of \<open>createVertexError\<close> is an exception.
\<close>

theorem createVertexError_never_constructs:
  assumes "globals ''firebaseError'' = None"
  shows "createVertexError create globals code' data \<noteq> Inr e"
proof (cases "create ERROR_FACTORY code' data")
  case (Inl err)
  then show ?thesis by (simp add: createVertexError_def)
next
  case (Inr fe)
  then have "createVertexError create globals code' data =
             Inl (ReferenceError ''firebaseError'')"
    using assms by (rule createVertexError_raises)
  then show ?thesis by simp
qed

theorem createVertexError_never_constructs_witness:
  "Map.empty ''firebaseError'' = (None :: jsval option) \<and>
   createVertexError (ErrorFactory_create marker) Map.empty NO_API_KEY [] \<noteq>
   Inr \<lparr>code = Str ''no-api-key'',
        message = Str (VertexAIErrorMessages NO_API_KEY),
        customData = Obj []\<rparr>"
  using createVertexError_never_constructs
    [of Map.empty "ErrorFactory_create marker" NO_API_KEY "[]"]
  by simp


text \<open>
  Claim C4. For the kinds without parameters (missing API key, missing project id, missing
  model name), createError with an absent or empty params argument yields the kind's static
  template as the message; for the missing model name that is the sentence "Must provide a
  model name. Example: getGenerativeModel({ model: 'my-model-name' })". The template of
  \<open>NO_MODEL\<close> is that sentence, but no message is produced: with absent data for each of the
  three kinds, and with an empty record for \<open>NO_MODEL\<close>, the construction raises.
\<close>

theorem parameterless_kinds_raise:
  assumes "globals ''firebaseError'' = None"
  shows "VertexAIErrorMessages NO_MODEL =
           ''Must provide a model name. Example: getGenerativeModel({ model: 'my-model-name' })'' \<and>
         createVertexError (ErrorFactory_create absent) globals NO_MODEL [] =
           Inl (ReferenceError ''firebaseError'') \<and>
         createVertexError (ErrorFactory_create absent) globals NO_API_KEY [] =
           Inl (ReferenceError ''firebaseError'') \<and>
         createVertexError (ErrorFactory_create absent) globals NO_PROJECT_ID [] =
           Inl (ReferenceError ''firebaseError'') \<and>
         createVertexError (ErrorFactory_create absent) globals NO_MODEL [Obj []] =
           Inl (ReferenceError ''firebaseError'')"
  using assms by (simp add: modelled_factory_raises)

theorem parameterless_kinds_raise_witness:
  "Map.empty ''firebaseError'' = (None :: jsval option) \<and>
   well_typed_data NO_MODEL [] \<and>
   createVertexError (ErrorFactory_create keep_token) Map.empty NO_MODEL [] =
     Inl (ReferenceError ''firebaseError'') \<and>
   createVertexError (ErrorFactory_create keep_token) Map.empty NO_API_KEY [] =
     Inl (ReferenceError ''firebaseError'') \<and>
   createVertexError (ErrorFactory_create keep_token) Map.empty NO_PROJECT_ID [] =
     Inl (ReferenceError ''firebaseError'')"
  using parameterless_kinds_raise [of Map.empty keep_token]
  by (simp add: well_typed_data_def)

text \<open>
  Claim C5. A bad-response error built from url "u", status 404, status text "Not Found"
  and message "missing" has the message "Bad response from u: [404 Not Found] missing" and
  \<open>customData.status\<close> equal to the number 404. On this record, which has the declared
  shape, the construction raises and returns neither.
\<close>

theorem bad_response_scenario_raises:
  assumes "globals ''firebaseError'' = None"
  shows "well_typed_data BAD_RESPONSE
           [Obj [(''url'', Str ''u''), (''status'', Num 404),
                 (''statusText'', Str ''Not Found''), (''message'', Str ''missing'')]] \<and>
         createVertexError (ErrorFactory_create absent) globals BAD_RESPONSE
           [Obj [(''url'', Str ''u''), (''status'', Num 404),
                 (''statusText'', Str ''Not Found''), (''message'', Str ''missing'')]] =
         Inl (ReferenceError ''firebaseError'')"
proof
  show "well_typed_data BAD_RESPONSE
          [Obj [(''url'', Str ''u''), (''status'', Num 404),
                (''statusText'', Str ''Not Found''), (''message'', Str ''missing'')]]"
    by (simp add: well_typed_data_def conforms_def property_ok_def extra_ok_def)
  show "createVertexError (ErrorFactory_create absent) globals BAD_RESPONSE
          [Obj [(''url'', Str ''u''), (''status'', Num 404),
                (''statusText'', Str ''Not Found''), (''message'', Str ''missing'')]] =
        Inl (ReferenceError ''firebaseError'')"
    using assms by (rule modelled_factory_raises)
qed

theorem bad_response_scenario_raises_witness:
  "Map.empty ''firebaseError'' = (None :: jsval option) \<and>
   createVertexError (ErrorFactory_create marker) Map.empty BAD_RESPONSE
     [Obj [(''url'', Str ''u''), (''status'', Num 404),
           (''statusText'', Str ''Not Found''), (''message'', Str ''missing'')]] =
   Inl (ReferenceError ''firebaseError'')"
  using bad_response_scenario_raises [of Map.empty marker]
  by simp

text \<open>
  Claim C6. A fetch error built from url "https://api.example.com/v1" and message "timeout"
  has the message "Error fetching from https://api.example.com/v1: timeout". On this
  record, which has the declared shape, the construction raises and returns no message.
\<close>

theorem fetch_error_scenario_raises:
  assumes "globals ''firebaseError'' = None"
  shows "well_typed_data FETCH_ERROR
           [Obj [(''url'', Str ''https://api.example.com/v1''), (''message'', Str ''timeout'')]] \<and>
         createVertexError (ErrorFactory_create absent) globals FETCH_ERROR
           [Obj [(''url'', Str ''https://api.example.com/v1''), (''message'', Str ''timeout'')]] =
         Inl (ReferenceError ''firebaseError'')"
proof
  show "well_typed_data FETCH_ERROR
          [Obj [(''url'', Str ''https://api.example.com/v1''), (''message'', Str ''timeout'')]]"
    by (simp add: well_typed_data_def conforms_def property_ok_def extra_ok_def)
  show "createVertexError (ErrorFactory_create absent) globals FETCH_ERROR
          [Obj [(''url'', Str ''https://api.example.com/v1''), (''message'', Str ''timeout'')]] =
        Inl (ReferenceError ''firebaseError'')"
    using assms by (rule modelled_factory_raises)
qed

theorem fetch_error_scenario_raises_witness:
  "Map.empty ''firebaseError'' = (None :: jsval option) \<and>
   createVertexError (ErrorFactory_create marker) Map.empty FETCH_ERROR
     [Obj [(''url'', Str ''https://api.example.com/v1''), (''message'', Str ''timeout'')]] =
   Inl (ReferenceError ''firebaseError'')"
  using fetch_error_scenario_raises [of Map.empty marker]
  by simp

text \<open>
  Claim C7. For a response error, \<open>customData.response\<close> is deep-equal to the response
  passed in. On a well-formed record with a response object, the construction raises and
  no \<open>customData\<close> exists to hold the response.
\<close>

theorem response_error_raises:
  assumes "globals ''firebaseError'' = None"
  shows "well_typed_data RESPONSE_ERROR
           [Obj [(''message'', Str ''blocked''),
                 (''response'',
                  Obj [(''candidates'', Arr []),
                       (''promptFeedback'', Obj [(''blockReason'', Str ''SAFETY'')])])]] \<and>
         createVertexError (ErrorFactory_create absent) globals RESPONSE_ERROR
           [Obj [(''message'', Str ''blocked''),
                 (''response'',
                  Obj [(''candidates'', Arr []),
                       (''promptFeedback'', Obj [(''blockReason'', Str ''SAFETY'')])])]] =
         Inl (ReferenceError ''firebaseError'')"
proof
  show "well_typed_data RESPONSE_ERROR
          [Obj [(''message'', Str ''blocked''),
                (''response'',
                 Obj [(''candidates'', Arr []),
                      (''promptFeedback'', Obj [(''blockReason'', Str ''SAFETY'')])])]]"
    by (simp add: well_typed_data_def conforms_def property_ok_def extra_ok_def)
  show "createVertexError (ErrorFactory_create absent) globals RESPONSE_ERROR
          [Obj [(''message'', Str ''blocked''),
                (''response'',
                 Obj [(''candidates'', Arr []),
                      (''promptFeedback'', Obj [(''blockReason'', Str ''SAFETY'')])])]] =
        Inl (ReferenceError ''firebaseError'')"
    using assms by (rule modelled_factory_raises)
qed

theorem response_error_raises_witness:
  "Map.empty ''firebaseError'' = (None :: jsval option) \<and>
   createVertexError (ErrorFactory_create marker) Map.empty RESPONSE_ERROR
     [Obj [(''message'', Str ''blocked''),
           (''response'',
            Obj [(''candidates'', Arr []),
                 (''promptFeedback'', Obj [(''blockReason'', Str ''SAFETY'')])])]] =
   Inl (ReferenceError ''firebaseError'')"
  using response_error_raises [of Map.empty marker]
  by simp

text \<open>
  Claim C8. For a bad response whose params include \<open>errorDetails\<close>, the error's
  \<open>customData.errorDetails\<close> is the input sequence, element for element and in order. On a
  well-formed record with two error details, the construction raises and no
  \<open>customData\<close> exists to hold them.
\<close>

theorem bad_response_with_details_raises:
  assumes "globals ''firebaseError'' = None"
  shows "well_typed_data BAD_RESPONSE
           [Obj [(''url'', Str ''u''), (''status'', Num 400),
                 (''statusText'', Str ''Bad Request''), (''message'', Str ''invalid''),
                 (''errorDetails'',
                  Arr [Obj [(''@type'', Str ''t1''), (''reason'', Str ''r1'')],
                       Obj [(''reason'', Str ''r2''), (''retryDelay'', Num 3)]])]] \<and>
         createVertexError (ErrorFactory_create absent) globals BAD_RESPONSE
           [Obj [(''url'', Str ''u''), (''status'', Num 400),
                 (''statusText'', Str ''Bad Request''), (''message'', Str ''invalid''),
                 (''errorDetails'',
                  Arr [Obj [(''@type'', Str ''t1''), (''reason'', Str ''r1'')],
                       Obj [(''reason'', Str ''r2''), (''retryDelay'', Num 3)]])]] =
         Inl (ReferenceError ''firebaseError'')"
proof
  show "well_typed_data BAD_RESPONSE
          [Obj [(''url'', Str ''u''), (''status'', Num 400),
                (''statusText'', Str ''Bad Request''), (''message'', Str ''invalid''),
                (''errorDetails'',
                 Arr [Obj [(''@type'', Str ''t1''), (''reason'', Str ''r1'')],
                      Obj [(''reason'', Str ''r2''), (''retryDelay'', Num 3)]])]]"
    by (simp add: well_typed_data_def conforms_def property_ok_def extra_ok_def
        is_ErrorDetails_def ErrorDetails_def)
  show "createVertexError (ErrorFactory_create absent) globals BAD_RESPONSE
          [Obj [(''url'', Str ''u''), (''status'', Num 400),
                (''statusText'', Str ''Bad Request''), (''message'', Str ''invalid''),
                (''errorDetails'',
                 Arr [Obj [(''@type'', Str ''t1''), (''reason'', Str ''r1'')],
                      Obj [(''reason'', Str ''r2''), (''retryDelay'', Num 3)]])]] =
        Inl (ReferenceError ''firebaseError'')"
    using assms by (rule modelled_factory_raises)
qed

theorem bad_response_with_details_raises_witness:
  "Map.empty ''firebaseError'' = (None :: jsval option) \<and>
   createVertexError (ErrorFactory_create marker) Map.empty BAD_RESPONSE
     [Obj [(''url'', Str ''u''), (''status'', Num 400),
           (''statusText'', Str ''Bad Request''), (''message'', Str ''invalid''),
           (''errorDetails'',
            Arr [Obj [(''@type'', Str ''t1''), (''reason'', Str ''r1'')],
                 Obj [(''reason'', Str ''r2''), (''retryDelay'', Num 3)]])]] =
   Inl (ReferenceError ''firebaseError'')"
  using bad_response_with_details_raises [of Map.empty marker]
  by simp

text \<open>
  Claim C9. The ErrorDetails record is open-ended and its recognised optional fields are
  named type, reason, domain and metadata. In the source the first field is named
  \<open>@type\<close>: a property named \<open>type\<close> is one of the arbitrary additional ones and takes any
  value, while \<open>@type\<close> must be a string.
\<close>

theorem ErrorDetails_type_field_counterexample:
  "''type'' \<notin> set (map fst (properties ErrorDetails)) \<and>
   is_ErrorDetails (Obj [(''type'', Num 5)]) \<and>
   \<not> is_ErrorDetails (Obj [(''@type'', Num 5)])"
  by (simp add: is_ErrorDetails_def conforms_def property_ok_def extra_ok_def ErrorDetails_def)

text \<open>
  Claim C9 as amended. The recognised fields are \<open>@type\<close>, \<open>reason\<close>, \<open>domain\<close> (strings)
  and \<open>metadata\<close> (a nested mapping); all four are optional, so the empty record is an
  ErrorDetails; and the record is open-ended: adding a property of any other name, with any
  value, to an ErrorDetails gives an ErrorDetails.
\<close>

theorem ErrorDetails_open_ended:
  assumes "is_ErrorDetails (Obj kvs)"
    and "k \<notin> set [''@type'', ''reason'', ''domain'', ''metadata'']"
  shows "properties ErrorDetails =
           [(''@type'', TString, True), (''reason'', TString, True),
            (''domain'', TString, True), (''metadata'', TRecordUnknown, True)] \<and>
         is_ErrorDetails (Obj []) \<and>
         is_ErrorDetails (Obj ((k, v) # kvs))"
  using assms
  by (auto simp add: is_ErrorDetails_def conforms_def property_ok_def extra_ok_def
      ErrorDetails_def)

theorem ErrorDetails_open_ended_witness:
  "is_ErrorDetails (Obj [(''reason'', Str ''r'')]) \<and>
   ''retryDelay'' \<notin> set [''@type'', ''reason'', ''domain'', ''metadata''] \<and>
   is_ErrorDetails (Obj []) \<and>
   is_ErrorDetails (Obj [(''retryDelay'', Arr [Num 3, Null]), (''reason'', Str ''r'')])"
  using ErrorDetails_open_ended
    [of "[(''reason'', Str ''r'')]" "''retryDelay''" "Arr [Num 3, Null]"]
  by (simp add: is_ErrorDetails_def conforms_def property_ok_def extra_ok_def ErrorDetails_def)

text \<open>
  Claim C10. When the params record lacks the field of a placeholder, or the field is
  undefined, the rendered message has the marker \<open><name?>\<close> in the placeholder's place.
  No message is rendered: whatever stands for a missing field, the construction raises on
  a parse-failed record without its message and on a fetch-error record whose url is
  undefined.
\<close>

theorem missing_field_raises:
  assumes "globals ''firebaseError'' = None"
  shows "createVertexError (ErrorFactory_create absent) globals PARSE_FAILED [Obj []] =
           Inl (ReferenceError ''firebaseError'') \<and>
         createVertexError (ErrorFactory_create absent) globals FETCH_ERROR
           [Obj [(''url'', Undefined), (''message'', Str ''m'')]] =
           Inl (ReferenceError ''firebaseError'')"
  using assms by (simp add: modelled_factory_raises)

theorem missing_field_raises_witness:
  "Map.empty ''firebaseError'' = (None :: jsval option) \<and>
   createVertexError (ErrorFactory_create marker) Map.empty PARSE_FAILED [Obj []] =
     Inl (ReferenceError ''firebaseError'') \<and>
   createVertexError (ErrorFactory_create marker) Map.empty FETCH_ERROR
     [Obj [(''url'', Undefined), (''message'', Str ''m'')]] =
     Inl (ReferenceError ''firebaseError'')"
  using missing_field_raises [of Map.empty marker]
  by simp

end
